theory Spec2Isabelle
  imports Main "HOL-Library.Sublist" "HOL-Library.Word"
begin

section \<open>Python values, exceptions and Golden records\<close>

text \<open>
  The values a Golden attribute can hold. \<open>PObject t\<close> stands for any object of type
  \<open>t\<close> that \<open>json.dumps\<close> cannot serialise; dictionaries keep their insertion order
  and have string keys. Floating point numbers are left out.
\<close>

datatype pyval =
    PNone
  | PBool bool
  | PInt int
  | PStr string
  | PList "pyval list"
  | PDict "(string \<times> pyval) list"
  | PObject string

text \<open>Python truthiness, as used by \<open>if golden.context\<close>.\<close>

fun truthy :: "pyval \<Rightarrow> bool" where
  "truthy PNone = False"
| "truthy (PBool b) = b"
| "truthy (PInt i) = (i \<noteq> 0)"
| "truthy (PStr s) = (s \<noteq> [])"
| "truthy (PList xs) = (xs \<noteq> [])"
| "truthy (PDict kvs) = (kvs \<noteq> [])"
| "truthy (PObject t) = True"

text \<open>
  A raised exception, with its \<open>str(e)\<close>. \<open>PyException\<close> is an instance of the class
  \<open>Exception\<close> (or of a subclass); \<open>PyBaseException\<close> is an instance of
  \<open>BaseException\<close> that is not an \<open>Exception\<close>, such as \<open>KeyboardInterrupt\<close>,
  \<open>SystemExit\<close> or the script-control exceptions of the user interface library.
\<close>

datatype exn = PyException string | PyBaseException string

fun is_Exception :: "exn \<Rightarrow> bool" where
  "is_Exception (PyException m) = True"
| "is_Exception (PyBaseException m) = False"

fun str :: "exn \<Rightarrow> string" where
  "str (PyException m) = m"
| "str (PyBaseException m) = m"

text \<open>
  A Golden is an object of the collaborator; the application reads its attributes by
  name and tests some of them with \<open>hasattr\<close>, so a Golden is the map from attribute
  names to values.
\<close>

type_synonym golden = "string \<rightharpoonup> pyval"

definition hasattr :: "golden \<Rightarrow> string \<Rightarrow> bool" where
  "hasattr g a = (g a \<noteq> None)"

definition getattr :: "golden \<Rightarrow> string \<Rightarrow> exn + pyval" where
  "getattr g a =
     (case g a of
        None \<Rightarrow> Inl (PyException (''object has no attribute '' @ a))
      | Some v \<Rightarrow> Inr v)"

text \<open>\<open>hasattr(golden, a) and golden.a\<close>: the attribute exists and its value is truthy.\<close>

definition present :: "golden \<Rightarrow> string \<Rightarrow> bool" where
  "present g a = (case g a of None \<Rightarrow> False | Some v \<Rightarrow> truthy v)"

section \<open>JSON\<close>

datatype json =
    JNull
  | JBool bool
  | JNumber int
  | JString string
  | JArray "json list"
  | JObject "(string \<times> json) list"

fun serializable :: "pyval \<Rightarrow> bool" where
  "serializable (PList xs) = list_all serializable xs"
| "serializable (PDict kvs) = list_all (\<lambda>kv. serializable (snd kv)) kvs"
| "serializable (PObject t) = False"
| "serializable v = True"

fun to_json :: "pyval \<Rightarrow> json" where
  "to_json PNone = JNull"
| "to_json (PBool b) = JBool b"
| "to_json (PInt i) = JNumber i"
| "to_json (PStr s) = JString s"
| "to_json (PList xs) = JArray (map to_json xs)"
| "to_json (PDict kvs) = JObject (map (\<lambda>kv. (fst kv, to_json (snd kv))) kvs)"
| "to_json (PObject t) = JNull"

text \<open>
  \<open>json.dumps(v, indent=2)\<close>: the document is kept as a tree, not as text; a value that
  is not serialisable raises \<open>TypeError\<close>.
\<close>

definition json_dumps :: "pyval \<Rightarrow> exn + json" where
  "json_dumps v =
     (if serializable v then Inr (to_json v)
      else Inl (PyException ''Object is not JSON serializable''))"

text \<open>\<open>data[k] = v\<close> on a dictionary: an existing key keeps its place, a new key goes last.\<close>

fun dict_set :: "(string \<times> pyval) list \<Rightarrow> string \<Rightarrow> pyval \<Rightarrow> (string \<times> pyval) list" where
  "dict_set [] k v = [(k, v)]"
| "dict_set (p # ps) k v = (if fst p = k then (k, v) # ps else p # dict_set ps k v)"

section \<open>Files, the user interface and the collaborator\<close>

type_synonym bytes = "8 word list"
type_synonym path = string
type_synonym location = "string list"
type_synonym filesystem = "location \<rightharpoonup> bytes"

record uploaded_file =
  name :: string
  getvalue :: bytes

record styling_config =
  input_format :: string
  expected_output_format :: string
  task :: string
  scenario :: string

text \<open>
  What an action does, in the order it does it: the calls on the user interface, the
  writes to the file system and the calls to the collaborator, each with its arguments
  and with what came back (the goldens read from \<open>synthesizer.synthetic_goldens\<close>, or
  the exception raised). \<open>MarkdownCode v\<close> is \<open>st.markdown\<close> of the fenced block that
  shows \<open>v\<close>; \<open>Expander n\<close> opens the panel \<open>Example n\<close>.
\<close>

datatype event =
    Spinner string
  | Subheader string
  | Expander nat
  | Markdown string
  | MarkdownCode pyval
  | StJson pyval
  | Info string
  | Warning string
  | Error string
  | DownloadButton string json string string
  | FileWrite path bytes
  | GenerateFromScratch styling_config int "exn + golden list"
  | GenerateFromDocs "path list" "exn + golden list"

text \<open>
  Everything the application does not decide itself: whether the temporary directory
  can be made and what it is called, whether a file can be opened and written, and
  what the collaborator's two generation calls come back with. Opening and writing a
  copy is one step: it fails before anything is written, or all the bytes are stored.
\<close>

record env =
  mkdtemp :: "exn + path"
  open_wb :: "filesystem \<Rightarrow> path \<Rightarrow> exn option"
  generate_goldens_from_scratch :: "styling_config \<Rightarrow> int \<Rightarrow> exn + golden list"
  generate_goldens_from_docs :: "filesystem \<Rightarrow> path list \<Rightarrow> exn + golden list"

datatype outcome = Completed | Propagated exn

text \<open>\<open>os.path.join(a, b)\<close> of \<open>posixpath\<close>: an absolute \<open>b\<close> replaces \<open>a\<close>.\<close>

definition os_path_join :: "path \<Rightarrow> string \<Rightarrow> path" where
  "os_path_join a b =
     (if b \<noteq> [] \<and> hd b = CHR ''/'' then b
      else if a = [] \<or> last a = CHR ''/'' then a @ b
      else a @ ''/'' @ b)"

text \<open>
  Where a path leads. A path is split at its separators; empty components and \<open>.\<close> are
  skipped and \<open>..\<close> goes to the parent, the parent of the root being the root. Links
  are not modelled, and a relative path is taken from the root (the temporary
  directory of \<open>tempfile\<close> is absolute). A location is the list of names from the root.
\<close>

fun split_path :: "string \<Rightarrow> string list" where
  "split_path [] = [[]]"
| "split_path (c # cs) =
     (if c = CHR ''/'' then [] # split_path cs
      else (case split_path cs of [] \<Rightarrow> [[c]] | x # xs \<Rightarrow> (c # x) # xs))"

fun resolve :: "string list \<Rightarrow> string list \<Rightarrow> location" where
  "resolve st [] = rev st"
| "resolve st (c # cs) =
     (if c = [] \<or> c = ''.'' then resolve st cs
      else if c = ''..'' then resolve (tl st) cs
      else resolve (c # st) cs)"

definition location :: "path \<Rightarrow> location" where
  "location p = resolve [] (split_path p)"

text \<open>A path lies in the directory \<open>d\<close> when it leads to a place below that of \<open>d\<close>.\<close>

definition in_dir :: "path \<Rightarrow> path \<Rightarrow> bool" where
  "in_dir d p = strict_prefix (location d) (location p)"

text \<open>Leaving \<open>with tempfile.TemporaryDirectory()\<close> removes the directory and all in it.\<close>

definition rmtree :: "path \<Rightarrow> filesystem \<Rightarrow> filesystem" where
  "rmtree d fs = (\<lambda>l. if strict_prefix (location d) l then None else fs l)"

text \<open>A file name that is one path component, as a browser sends it with an upload.\<close>

definition plain_name :: "string \<Rightarrow> bool" where
  "plain_name n = (n \<noteq> [] \<and> CHR ''/'' \<notin> set n \<and> n \<noteq> ''.'' \<and> n \<noteq> ''..'')"

section \<open>Styling mode\<close>

text \<open>
  \<open>st.slider(label, min_value, max_value, value)\<close>, a widget of the user interface
  library: it gives the number held in its state when that lies between \<open>min_value\<close>
  and \<open>max_value\<close>, and its default \<open>value\<close> otherwise, that is, before the user has
  moved the handle and when the state holds a number outside the range.
\<close>

definition st_slider :: "int \<Rightarrow> int \<Rightarrow> int \<Rightarrow> int option \<Rightarrow> int" where
  "st_slider min_value max_value value handle =
     (case handle of
        None \<Rightarrow> value
      | Some v \<Rightarrow> if min_value \<le> v \<and> v \<le> max_value then v else value)"

text \<open>The panels of lines 82 to 84; reading \<open>golden.input\<close> can raise.\<close>

fun show_styling :: "nat \<Rightarrow> golden list \<Rightarrow> exn option \<times> event list" where
  "show_styling i [] = (None, [])"
| "show_styling i (golden # goldens) =
     (case getattr golden ''input'' of
        Inl ex \<Rightarrow> (Some ex, [Expander (i + 1)])
      | Inr v \<Rightarrow>
          (case show_styling (i + 1) goldens of
             (r, evs) \<Rightarrow> (r, Expander (i + 1) # MarkdownCode v # evs)))"

text \<open>The loop of lines 88 to 92 that fills \<open>json_data\<close>.\<close>

fun styling_json_data :: "golden list \<Rightarrow> exn + pyval list" where
  "styling_json_data [] = Inr []"
| "styling_json_data (golden # goldens) =
     (case getattr golden ''input'' of
        Inl ex \<Rightarrow> Inl ex
      | Inr v \<Rightarrow>
          (case styling_json_data goldens of
             Inl ex \<Rightarrow> Inl ex
           | Inr json_data \<Rightarrow> Inr (PDict [(''input'', v)] # json_data)))"

text \<open>Lines 80 to 103: what is done with the goldens once the collaborator returned them.\<close>

definition styling_results :: "golden list \<Rightarrow> exn option \<times> event list" where
  "styling_results synthetic_goldens =
     (case show_styling 0 synthetic_goldens of
        (Some ex, evs) \<Rightarrow> (Some ex, Subheader ''Generated Examples:'' # evs)
      | (None, evs) \<Rightarrow>
          (case styling_json_data synthetic_goldens of
             Inl ex \<Rightarrow> (Some ex, Subheader ''Generated Examples:'' # evs)
           | Inr json_data \<Rightarrow>
               (case json_dumps (PList json_data) of
                  Inl ex \<Rightarrow> (Some ex, Subheader ''Generated Examples:'' # evs)
                | Inr json_str \<Rightarrow>
                    (None, Subheader ''Generated Examples:'' # evs @
                       [DownloadButton ''Download as JSON'' json_str
                          ''synthetic_data.json'' ''application/json'']))))"

text \<open>The body of \<open>try\<close>, lines 61 to 103.\<close>

definition styling_try ::
  "env \<Rightarrow> string \<Rightarrow> string \<Rightarrow> string \<Rightarrow> string \<Rightarrow> int \<Rightarrow> exn option \<times> event list" where
  "styling_try e in_fmt out_fmt tsk scn num_goldens =
     (let cfg = \<lparr>input_format = in_fmt, expected_output_format = out_fmt,
                  task = tsk, scenario = scn\<rparr>
      in case generate_goldens_from_scratch e cfg num_goldens of
           Inl ex \<Rightarrow> (Some ex, [GenerateFromScratch cfg num_goldens (Inl ex)])
         | Inr synthetic_goldens \<Rightarrow>
             (case styling_results synthetic_goldens of
                (r, evs) \<Rightarrow>
                  (r, GenerateFromScratch cfg num_goldens (Inr synthetic_goldens) # evs)))"

text \<open>The action of the button, lines 59 to 106: \<open>except Exception\<close> around the body.\<close>

definition generate_from_styling ::
  "env \<Rightarrow> string \<Rightarrow> string \<Rightarrow> string \<Rightarrow> string \<Rightarrow> int \<Rightarrow> outcome \<times> event list" where
  "generate_from_styling e in_fmt out_fmt tsk scn num_goldens =
     (case styling_try e in_fmt out_fmt tsk scn num_goldens of
        (None, evs) \<Rightarrow> (Completed, Spinner ''Generating synthetic data...'' # evs)
      | (Some ex, evs) \<Rightarrow>
          (if is_Exception ex
           then (Completed, Spinner ''Generating synthetic data...'' # evs @
                   [Error (''Error generating synthetic data: '' @ str ex)])
           else (Propagated ex, Spinner ''Generating synthetic data...'' # evs)))"

text \<open>
  One run of the page in styling mode, lines 36 to 106: the four texts, the handle of
  the slider and whether the button was pressed.
\<close>

definition styling_page ::
  "env \<Rightarrow> string \<Rightarrow> string \<Rightarrow> string \<Rightarrow> string \<Rightarrow> int option \<Rightarrow> bool \<Rightarrow> outcome \<times> event list" where
  "styling_page e in_fmt out_fmt tsk scn handle button =
     (let num_goldens = st_slider 1 50 5 handle
      in if button then generate_from_styling e in_fmt out_fmt tsk scn num_goldens
         else (Completed, []))"

section \<open>Document mode\<close>

text \<open>The loop of lines 119 to 124 that copies the uploads.\<close>

fun save_uploaded_files ::
  "env \<Rightarrow> path \<Rightarrow> uploaded_file list \<Rightarrow> filesystem
     \<Rightarrow> exn option \<times> path list \<times> event list \<times> filesystem" where
  "save_uploaded_files e temp_dir [] fs = (None, [], [], fs)"
| "save_uploaded_files e temp_dir (uploaded_file # uploaded_files) fs =
     (let file_path = os_path_join temp_dir (name uploaded_file)
      in case open_wb e fs file_path of
           Some ex \<Rightarrow> (Some ex, [], [], fs)
         | None \<Rightarrow>
             (case save_uploaded_files e temp_dir uploaded_files
                     (fs(location file_path \<mapsto> getvalue uploaded_file)) of
                (r, file_paths, evs, fs') \<Rightarrow>
                  (r, file_path # file_paths,
                   FileWrite file_path (getvalue uploaded_file)
                     # Info (''Processing: '' @ name uploaded_file) # evs,
                   fs')))"

text \<open>The panel of one golden, lines 144 to 157.\<close>

definition show_document :: "nat \<Rightarrow> golden \<Rightarrow> exn option \<times> event list" where
  "show_document i golden =
     (case getattr golden ''input'' of
        Inl ex \<Rightarrow> (Some ex, [Expander (i + 1), Markdown ''**Input:**''])
      | Inr inp \<Rightarrow>
          (case getattr golden ''expected_output'' of
             Inl ex \<Rightarrow>
               (Some ex, [Expander (i + 1), Markdown ''**Input:**'', MarkdownCode inp,
                          Markdown ''**Expected Output:**''])
           | Inr eo \<Rightarrow>
               (None,
                [Expander (i + 1), Markdown ''**Input:**'', MarkdownCode inp,
                 Markdown ''**Expected Output:**'', MarkdownCode eo]
                @ (case golden ''context'' of
                     None \<Rightarrow> []
                   | Some c \<Rightarrow>
                       if truthy c then [Markdown ''**Context:**'', MarkdownCode c] else [])
                @ (case golden ''additional_metadata'' of
                     None \<Rightarrow> []
                   | Some m \<Rightarrow>
                       if truthy m then [Markdown ''**Additional Metadata:**'', StJson m]
                       else []))))"

fun show_documents :: "nat \<Rightarrow> golden list \<Rightarrow> exn option \<times> event list" where
  "show_documents i [] = (None, [])"
| "show_documents i (golden # goldens) =
     (case show_document i golden of
        (Some ex, evs) \<Rightarrow> (Some ex, evs)
      | (None, evs) \<Rightarrow>
          (case show_documents (i + 1) goldens of (r, evs') \<Rightarrow> (r, evs @ evs')))"

text \<open>The dictionary built for one golden, lines 163 to 174.\<close>

definition add_if_present ::
  "golden \<Rightarrow> string \<Rightarrow> (string \<times> pyval) list \<Rightarrow> (string \<times> pyval) list" where
  "add_if_present golden a data =
     (case golden a of
        None \<Rightarrow> data
      | Some v \<Rightarrow> if truthy v then dict_set data a v else data)"

definition document_data :: "golden \<Rightarrow> exn + pyval" where
  "document_data golden =
     (case getattr golden ''input'' of
        Inl ex \<Rightarrow> Inl ex
      | Inr inp \<Rightarrow>
          (case getattr golden ''expected_output'' of
             Inl ex \<Rightarrow> Inl ex
           | Inr eo \<Rightarrow>
               Inr (PDict
                 (add_if_present golden ''source_file''
                   (add_if_present golden ''additional_metadata''
                     (add_if_present golden ''context''
                       [(''input'', inp), (''expected_output'', eo)]))))))"

text \<open>The loop of lines 161 to 176.\<close>

fun document_json_data :: "golden list \<Rightarrow> exn + pyval list" where
  "document_json_data [] = Inr []"
| "document_json_data (golden # goldens) =
     (case document_data golden of
        Inl ex \<Rightarrow> Inl ex
      | Inr data \<Rightarrow>
          (case document_json_data goldens of
             Inl ex \<Rightarrow> Inl ex
           | Inr json_data \<Rightarrow> Inr (data # json_data)))"

text \<open>Lines 137 to 187: what is done with the goldens once the collaborator returned them.\<close>

definition document_results :: "golden list \<Rightarrow> exn option \<times> event list" where
  "document_results synthetic_goldens =
     (if synthetic_goldens = []
      then (None,
            [Subheader ''Generated Examples:'',
             Warning ''No synthetic data was generated. This might happen if the documents couldn't be processed properly.''])
      else
        (case show_documents 0 synthetic_goldens of
           (Some ex, evs) \<Rightarrow> (Some ex, Subheader ''Generated Examples:'' # evs)
         | (None, evs) \<Rightarrow>
             (case document_json_data synthetic_goldens of
                Inl ex \<Rightarrow> (Some ex, Subheader ''Generated Examples:'' # evs)
              | Inr json_data \<Rightarrow>
                  (case json_dumps (PList json_data) of
                     Inl ex \<Rightarrow> (Some ex, Subheader ''Generated Examples:'' # evs)
                   | Inr json_str \<Rightarrow>
                       (None, Subheader ''Generated Examples:'' # evs @
                          [DownloadButton ''Download as JSON'' json_str
                             ''synthetic_data_from_docs.json'' ''application/json''])))))"

text \<open>The body of \<open>with tempfile.TemporaryDirectory() as temp_dir\<close>, lines 117 to 187.\<close>

definition document_body ::
  "env \<Rightarrow> path \<Rightarrow> uploaded_file list \<Rightarrow> filesystem \<Rightarrow> exn option \<times> event list \<times> filesystem" where
  "document_body e temp_dir uploaded_files fs =
     (case save_uploaded_files e temp_dir uploaded_files fs of
        (Some ex, file_paths, evs, fs') \<Rightarrow> (Some ex, evs, fs')
      | (None, file_paths, evs, fs') \<Rightarrow>
          (case generate_goldens_from_docs e fs' file_paths of
             Inl ex \<Rightarrow> (Some ex, evs @ [GenerateFromDocs file_paths (Inl ex)], fs')
           | Inr synthetic_goldens \<Rightarrow>
               (case document_results synthetic_goldens of
                  (r, evs') \<Rightarrow>
                    (r, evs @ GenerateFromDocs file_paths (Inr synthetic_goldens) # evs',
                     fs'))))"

text \<open>
  The body of \<open>try\<close>, lines 116 to 187: the directory is made, the body runs, and the
  directory is removed however the body ends.
\<close>

definition document_try ::
  "env \<Rightarrow> uploaded_file list \<Rightarrow> filesystem \<Rightarrow> exn option \<times> event list \<times> filesystem" where
  "document_try e uploaded_files fs =
     (case mkdtemp e of
        Inl ex \<Rightarrow> (Some ex, [], fs)
      | Inr temp_dir \<Rightarrow>
          (case document_body e temp_dir uploaded_files fs of
             (r, evs, fs') \<Rightarrow> (r, evs, rmtree temp_dir fs')))"

text \<open>The action of the button, lines 114 to 191: \<open>except Exception\<close> around the body.\<close>

definition generate_from_documents ::
  "env \<Rightarrow> uploaded_file list \<Rightarrow> filesystem \<Rightarrow> outcome \<times> event list \<times> filesystem" where
  "generate_from_documents e uploaded_files fs =
     (case document_try e uploaded_files fs of
        (None, evs, fs') \<Rightarrow>
          (Completed, Spinner ''Generating synthetic data from documents...'' # evs, fs')
      | (Some ex, evs, fs') \<Rightarrow>
          (if is_Exception ex
           then (Completed,
                 Spinner ''Generating synthetic data from documents...'' # evs @
                   [Error (''Error generating synthetic data: '' @ str ex),
                    Error ''Make sure you have the required API key set if needed.''],
                 fs')
           else (Propagated ex,
                 Spinner ''Generating synthetic data from documents...'' # evs, fs')))"

text \<open>
  One run of the page in document mode, lines 109 to 191:
  \<open>if uploaded_files and st.button("Generate Data")\<close>.
\<close>

definition document_page ::
  "env \<Rightarrow> uploaded_file list \<Rightarrow> bool \<Rightarrow> filesystem \<Rightarrow> outcome \<times> event list \<times> filesystem" where
  "document_page e uploaded_files button fs =
     (if uploaded_files \<noteq> [] \<and> button then generate_from_documents e uploaded_files fs
      else (Completed, [], fs))"

section \<open>Kinds of events\<close>

text \<open>
  The events of a panel, the events of the part that shows and exports the goldens, and
  the events of the loop that copies the uploads.
\<close>

fun is_panel :: "event \<Rightarrow> bool" where
  "is_panel (Expander n) = True"
| "is_panel (Markdown s) = True"
| "is_panel (MarkdownCode v) = True"
| "is_panel (StJson v) = True"
| "is_panel ev = False"

fun is_result :: "event \<Rightarrow> bool" where
  "is_result (Subheader s) = True"
| "is_result (Warning s) = True"
| "is_result (DownloadButton l j f m) = True"
| "is_result ev = is_panel ev"

fun is_save :: "event \<Rightarrow> bool" where
  "is_save (FileWrite p b) = True"
| "is_save (Info s) = True"
| "is_save ev = False"

text \<open>The keys of the object exported for a golden in document mode, in their order.\<close>

definition document_keys :: "golden \<Rightarrow> string list" where
  "document_keys g = ''input'' # ''expected_output'' #
     filter (present g) [''context'', ''additional_metadata'', ''source_file'']"

section \<open>Example inputs\<close>

definition golden_plain :: golden where
  "golden_plain = [''input'' \<mapsto> PStr ''q'', ''expected_output'' \<mapsto> PStr []]"

definition golden_rich :: golden where
  "golden_rich =
     [''input'' \<mapsto> PStr ''q2'', ''expected_output'' \<mapsto> PStr ''a'',
      ''context'' \<mapsto> PList [PStr ''c''], ''additional_metadata'' \<mapsto> PDict [],
      ''source_file'' \<mapsto> PStr ''s'']"

definition env_returning :: "golden list \<Rightarrow> env" where
  "env_returning gs =
     \<lparr>mkdtemp = Inr ''/t'', open_wb = (\<lambda>fs p. None),
      generate_goldens_from_scratch = (\<lambda>cfg n. Inr gs),
      generate_goldens_from_docs = (\<lambda>fs ps. Inr gs)\<rparr>"

definition env_raising :: "exn \<Rightarrow> env" where
  "env_raising ex =
     \<lparr>mkdtemp = Inr ''/t'', open_wb = (\<lambda>fs p. None),
      generate_goldens_from_scratch = (\<lambda>cfg n. Inl ex),
      generate_goldens_from_docs = (\<lambda>fs ps. Inl ex)\<rparr>"

definition file_one :: uploaded_file where
  "file_one = \<lparr>name = ''a'', getvalue = [1, 2]\<rparr>"

definition file_two :: uploaded_file where
  "file_two = \<lparr>name = ''a'', getvalue = [3]\<rparr>"

definition env_tmp :: env where
  "env_tmp =
     \<lparr>mkdtemp = Inr ''/tmp/tmpk3'', open_wb = (\<lambda>fs p. None),
      generate_goldens_from_scratch = (\<lambda>cfg n. Inr []),
      generate_goldens_from_docs = (\<lambda>fs ps. Inr [])\<rparr>"

definition file_absolute :: uploaded_file where
  "file_absolute = \<lparr>name = ''/tmp/keep'', getvalue = [7]\<rparr>"

definition file_parent :: uploaded_file where
  "file_parent = \<lparr>name = ''../keep2'', getvalue = [8]\<rparr>"



section \<open>The parts of a run\<close>

lemma present_hasattr:
  "present g a = (hasattr g a \<and> (\<exists>v. getattr g a = Inr v \<and> truthy v))"
  by (cases "g a") (simp_all add: present_def hasattr_def getattr_def)

lemma show_styling_panel: "ev \<in> set (snd (show_styling i gs)) \<Longrightarrow> is_panel ev"
proof (induction gs arbitrary: i)
  case Nil
  then show ?case by simp
next
  case (Cons g gs)
  obtain r evs where rest: "show_styling (i + 1) gs = (r, evs)"
    by (cases "show_styling (i + 1) gs")
  have "ev \<in> set evs \<Longrightarrow> is_panel ev"
    using Cons.IH [of "i + 1"] rest by simp
  with Cons.prems rest show ?case
    by (auto split: sum.splits)
qed

lemma show_document_panel: "ev \<in> set (snd (show_document i g)) \<Longrightarrow> is_panel ev"
  by (auto simp: show_document_def split: sum.splits option.splits if_splits)

lemma show_documents_panel: "ev \<in> set (snd (show_documents i gs)) \<Longrightarrow> is_panel ev"
proof (induction gs arbitrary: i)
  case Nil
  then show ?case by simp
next
  case (Cons g gs)
  obtain r evs where d: "show_document i g = (r, evs)"
    by (cases "show_document i g")
  obtain r' evs' where ds: "show_documents (i + 1) gs = (r', evs')"
    by (cases "show_documents (i + 1) gs")
  have p1: "ev \<in> set evs \<Longrightarrow> is_panel ev"
    using show_document_panel [of ev i g] d by simp
  have p2: "ev \<in> set evs' \<Longrightarrow> is_panel ev"
    using Cons.IH [of "i + 1"] ds by simp
  from Cons.prems d ds p1 p2 show ?case
    by (cases r) auto
qed

lemma styling_json_data_Inr:
  "styling_json_data gs = Inr ds \<Longrightarrow>
     list_all2 (\<lambda>g d. \<exists>v. g ''input'' = Some v \<and> d = PDict [(''input'', v)]) gs ds"
  by (induction gs arbitrary: ds)
     (auto simp: getattr_def split: sum.splits option.splits)

lemma document_json_data_Inr:
  "document_json_data gs = Inr ds \<Longrightarrow> list_all2 (\<lambda>g d. document_data g = Inr d) gs ds"
  by (induction gs arbitrary: ds) (auto split: sum.splits)

lemma styling_results_events: "ev \<in> set (snd (styling_results gs)) \<Longrightarrow> is_result ev"
  using show_styling_panel [of ev 0 gs]
  by (cases ev) (auto simp: styling_results_def split: prod.splits option.splits sum.splits)

lemma document_results_events: "ev \<in> set (snd (document_results gs)) \<Longrightarrow> is_result ev"
  using show_documents_panel [of ev 0 gs]
  by (cases ev) (auto simp: document_results_def split: prod.splits option.splits sum.splits if_splits)

lemma styling_results_download:
  assumes "DownloadButton l j f m \<in> set (snd (styling_results gs))"
  shows "\<exists>ds. styling_json_data gs = Inr ds \<and> j = JArray (map to_json ds)
           \<and> fst (styling_results gs) = None"
  using assms show_styling_panel [of "DownloadButton l j f m" 0 gs]
  by (auto simp: styling_results_def json_dumps_def split: prod.splits option.splits sum.splits if_splits)

lemma document_results_download:
  assumes "DownloadButton l j f m \<in> set (snd (document_results gs))"
  shows "\<exists>ds. document_json_data gs = Inr ds \<and> j = JArray (map to_json ds)
           \<and> fst (document_results gs) = None \<and> gs \<noteq> []"
  using assms show_documents_panel [of "DownloadButton l j f m" 0 gs]
  by (auto simp: document_results_def json_dumps_def split: prod.splits option.splits sum.splits if_splits)

lemma save_uploaded_files_events:
  "ev \<in> set (fst (snd (snd (save_uploaded_files e td files fs)))) \<Longrightarrow> is_save ev"
proof (induction files arbitrary: fs)
  case Nil
  then show ?case by simp
next
  case (Cons uf ufs)
  let ?p = "location (os_path_join td (name uf))"
  obtain r ps evs fs1 where rest:
    "save_uploaded_files e td ufs (fs(?p \<mapsto> getvalue uf)) = (r, ps, evs, fs1)"
    by (cases "save_uploaded_files e td ufs (fs(?p \<mapsto> getvalue uf))")
  have "ev \<in> set evs \<Longrightarrow> is_save ev"
    using Cons.IH [of "fs(?p \<mapsto> getvalue uf)"] unfolding rest by simp
  with Cons.prems rest show ?case
    by (auto simp: Let_def split: option.splits)
qed

lemma save_uploaded_files_ok:
  "save_uploaded_files e td files fs = (None, ps, evs, fs1) \<Longrightarrow>
     ps = map (\<lambda>f. os_path_join td (name f)) files \<and>
     evs = concat (map (\<lambda>f. [FileWrite (os_path_join td (name f)) (getvalue f),
                               Info (''Processing: '' @ name f)]) files)"
  by (induction files arbitrary: fs ps evs)
     (auto simp: Let_def split: option.splits prod.splits)



lemma document_body_call:
  assumes "document_body e td files fs = (r, tr, fs1)"
      and "GenerateFromDocs ps res \<in> set tr"
  shows "\<exists>evs evs'. save_uploaded_files e td files fs = (None, ps, evs, fs1)
           \<and> res = generate_goldens_from_docs e fs1 ps
           \<and> tr = evs @ GenerateFromDocs ps res # evs'
           \<and> (case res of Inl ex \<Rightarrow> r = Some ex \<and> evs' = []
                | Inr gs \<Rightarrow> document_results gs = (r, evs'))"
proof -
  obtain r0 ps0 evs0 fs0 where sv: "save_uploaded_files e td files fs = (r0, ps0, evs0, fs0)"
    by (cases "save_uploaded_files e td files fs") auto
  have a: "\<And>ev. ev \<in> set evs0 \<Longrightarrow> is_save ev"
    using save_uploaded_files_events [of _ e td files fs] sv by simp
  have b: "\<And>gs ev. ev \<in> set (snd (document_results gs)) \<Longrightarrow> is_result ev"
    by (rule document_results_events)
  from a have na: "GenerateFromDocs ps res \<notin> set evs0" by fastforce
  show ?thesis
  proof (cases r0)
    case (Some ex)
    with assms sv na show ?thesis by (simp add: document_body_def)
  next
    case None
    show ?thesis
    proof (cases "generate_goldens_from_docs e fs0 ps0")
      case (Inl ex)
      with assms sv na None show ?thesis by (auto simp: document_body_def)
    next
      case (Inr gs)
      obtain r1 evs1 where dr: "document_results gs = (r1, evs1)"
        by (cases "document_results gs")
      with b [of _ gs] have "GenerateFromDocs ps res \<notin> set evs1" by fastforce
      with assms sv na None Inr dr show ?thesis by (auto simp: document_body_def)
    qed
  qed
qed

lemma generate_from_documents_Inr:
  assumes "mkdtemp e = Inr td" and "document_body e td files fs = (r, tr, fs1)"
  shows "generate_from_documents e files fs =
     (case r of
        None \<Rightarrow> (Completed, Spinner ''Generating synthetic data from documents...'' # tr,
                 rmtree td fs1)
      | Some ex \<Rightarrow>
          if is_Exception ex
          then (Completed,
                Spinner ''Generating synthetic data from documents...'' # tr @
                  [Error (''Error generating synthetic data: '' @ str ex),
                   Error ''Make sure you have the required API key set if needed.''],
                rmtree td fs1)
          else (Propagated ex, Spinner ''Generating synthetic data from documents...'' # tr,
                rmtree td fs1))"
  using assms by (simp add: generate_from_documents_def document_try_def split: option.splits)

lemma generate_from_documents_Inl:
  assumes "mkdtemp e = Inl ex"
  shows "generate_from_documents e files fs =
     (if is_Exception ex
      then (Completed,
            [Spinner ''Generating synthetic data from documents...'',
             Error (''Error generating synthetic data: '' @ str ex),
             Error ''Make sure you have the required API key set if needed.''], fs)
      else (Propagated ex, [Spinner ''Generating synthetic data from documents...''], fs))"
  using assms by (simp add: generate_from_documents_def document_try_def)


lemma styling_try_call:
  assumes "styling_try e a b c d n = (r, tr)"
      and "GenerateFromScratch cfg k res \<in> set tr"
  shows "cfg = \<lparr>input_format = a, expected_output_format = b, task = c, scenario = d\<rparr>
           \<and> k = n \<and> res = generate_goldens_from_scratch e cfg n
           \<and> (case res of
                 Inl ex \<Rightarrow> r = Some ex \<and> tr = [GenerateFromScratch cfg k res]
               | Inr gs \<Rightarrow> \<exists>evs. styling_results gs = (r, evs)
                               \<and> tr = GenerateFromScratch cfg k res # evs)"
proof -
  let ?cfg = "\<lparr>input_format = a, expected_output_format = b, task = c, scenario = d\<rparr>"
  show ?thesis
  proof (cases "generate_goldens_from_scratch e ?cfg n")
    case (Inl ex)
    with assms show ?thesis by (auto simp: styling_try_def)
  next
    case (Inr gs)
    obtain r1 evs1 where sr: "styling_results gs = (r1, evs1)"
      by (cases "styling_results gs")
    with styling_results_events [of "GenerateFromScratch cfg k res" gs]
    have "GenerateFromScratch cfg k res \<notin> set evs1" by fastforce
    with assms Inr sr show ?thesis by (auto simp: styling_try_def)
  qed
qed

lemma generate_from_styling_unfold:
  assumes "styling_try e a b c d n = (r, tr)"
  shows "generate_from_styling e a b c d n =
     (case r of
        None \<Rightarrow> (Completed, Spinner ''Generating synthetic data...'' # tr)
      | Some ex \<Rightarrow>
          if is_Exception ex
          then (Completed, Spinner ''Generating synthetic data...'' # tr @
                  [Error (''Error generating synthetic data: '' @ str ex)])
          else (Propagated ex, Spinner ''Generating synthetic data...'' # tr))"
  using assms by (simp add: generate_from_styling_def split: option.splits)

lemma styling_download:
  assumes run: "generate_from_styling e a b c d n = (out, tr)"
      and call: "GenerateFromScratch cfg k (Inr gs) \<in> set tr"
      and button: "DownloadButton l j f m \<in> set tr"
  shows "\<exists>ds. styling_json_data gs = Inr ds \<and> j = JArray (map to_json ds) \<and> out = Completed"
proof -
  obtain r tr0 where t: "styling_try e a b c d n = (r, tr0)"
    by (cases "styling_try e a b c d n")
  from run generate_from_styling_unfold [OF t]
  have shape: "tr = Spinner ''Generating synthetic data...'' # tr0 \<or>
      (\<exists>ex. tr = Spinner ''Generating synthetic data...'' # tr0 @
          [Error (''Error generating synthetic data: '' @ str ex)])"
    and out: "r = None \<Longrightarrow> out = Completed"
    by (auto split: option.splits if_splits)
  from shape call have c0: "GenerateFromScratch cfg k (Inr gs) \<in> set tr0" by auto
  from shape button have b0: "DownloadButton l j f m \<in> set tr0" by auto
  from styling_try_call [OF t c0] obtain evs where
    sr: "styling_results gs = (r, evs)" and tr0: "tr0 = GenerateFromScratch cfg k (Inr gs) # evs"
    by auto
  from b0 tr0 have "DownloadButton l j f m \<in> set (snd (styling_results gs))"
    by (simp add: sr)
  from styling_results_download [OF this] sr out show ?thesis by auto
qed

lemma document_download:
  assumes run: "generate_from_documents e files fs = (out, tr, fs')"
      and call: "GenerateFromDocs ps (Inr gs) \<in> set tr"
      and button: "DownloadButton l j f m \<in> set tr"
  shows "\<exists>ds. document_json_data gs = Inr ds \<and> j = JArray (map to_json ds)
           \<and> out = Completed \<and> gs \<noteq> []"
proof (cases "mkdtemp e")
  case (Inl ex)
  with run call generate_from_documents_Inl [OF Inl, of files fs] show ?thesis
    by (auto split: if_splits)
next
  case (Inr td)
  obtain r tr0 fs1 where b: "document_body e td files fs = (r, tr0, fs1)"
    by (cases "document_body e td files fs") auto
  from run generate_from_documents_Inr [OF Inr b]
  have shape: "tr = Spinner ''Generating synthetic data from documents...'' # tr0 \<or>
      (\<exists>ex. tr = Spinner ''Generating synthetic data from documents...'' # tr0 @
          [Error (''Error generating synthetic data: '' @ str ex),
           Error ''Make sure you have the required API key set if needed.''])"
    and out: "r = None \<Longrightarrow> out = Completed"
    by (auto split: option.splits if_splits)
  from shape call have c0: "GenerateFromDocs ps (Inr gs) \<in> set tr0" by auto
  from shape button have b0: "DownloadButton l j f m \<in> set tr0" by auto
  from document_body_call [OF b c0] obtain evs evs' where
    sv: "save_uploaded_files e td files fs = (None, ps, evs, fs1)"
    and tr0: "tr0 = evs @ GenerateFromDocs ps (Inr gs) # evs'"
    and dr: "document_results gs = (r, evs')"
    by auto
  have "DownloadButton l j f m \<notin> set evs"
    using save_uploaded_files_events [of "DownloadButton l j f m" e td files fs] sv by auto
  with b0 tr0 have "DownloadButton l j f m \<in> set (snd (document_results gs))"
    by (simp add: dr)
  from document_results_download [OF this] dr out show ?thesis by auto
qed


section \<open>The exported JSON\<close>

lemma styling_json_data_values:
  "styling_json_data gs = Inr ds \<Longrightarrow>
     \<exists>vs. list_all2 (\<lambda>g v. g ''input'' = Some v) gs vs \<and>
          ds = map (\<lambda>v. PDict [(''input'', v)]) vs"
proof (induction gs arbitrary: ds)
  case Nil
  then show ?case by simp
next
  case (Cons g gs)
  from Cons.prems obtain v ds' where
    v: "g ''input'' = Some v" and rest: "styling_json_data gs = Inr ds'"
    and ds: "ds = PDict [(''input'', v)] # ds'"
    by (auto simp: getattr_def split: sum.splits option.splits)
  from Cons.IH [OF rest] obtain vs where
    "list_all2 (\<lambda>g v. g ''input'' = Some v) gs vs" "ds' = map (\<lambda>v. PDict [(''input'', v)]) vs"
    by blast
  with v ds have "list_all2 (\<lambda>g v. g ''input'' = Some v) (g # gs) (v # vs) \<and>
      ds = map (\<lambda>v. PDict [(''input'', v)]) (v # vs)"
    by simp
  then show ?case by blast
qed

text \<open>
  C2. In styling mode, whenever the download is offered, the exported JSON is an array
  with one object per golden the collaborator returned, and the object of the i-th
  golden has the single key \<open>input\<close>, whose value is that golden's \<open>input\<close>.
\<close>

theorem styling_export_only_input:
  assumes "generate_from_styling e a b c d n = (out, tr)"
      and "GenerateFromScratch cfg k (Inr gs) \<in> set tr"
      and "DownloadButton l j f m \<in> set tr"
  shows "\<exists>vs. length vs = length gs \<and> (\<forall>i<length gs. (gs ! i) ''input'' = Some (vs ! i))
           \<and> j = JArray (map (\<lambda>v. JObject [(''input'', to_json v)]) vs)"
proof -
  from styling_download [OF assms] obtain ds where
    ds: "styling_json_data gs = Inr ds" and j: "j = JArray (map to_json ds)"
    by blast
  from styling_json_data_values [OF ds] obtain vs where
    vs: "list_all2 (\<lambda>g v. g ''input'' = Some v) gs vs"
    and dsv: "ds = map (\<lambda>v. PDict [(''input'', v)]) vs"
    by blast
  from vs have "length vs = length gs" "\<forall>i<length gs. (gs ! i) ''input'' = Some (vs ! i)"
    by (auto simp: list_all2_conv_all_nth)
  moreover from j dsv have "j = JArray (map (\<lambda>v. JObject [(''input'', to_json v)]) vs)"
    by simp
  ultimately show ?thesis by blast
qed

theorem styling_export_only_input_witness:
  "generate_from_styling (env_returning [golden_plain, golden_rich]) ''i'' ''o'' ''t'' ''s'' 2 =
     (Completed,
      [Spinner ''Generating synthetic data...'',
       GenerateFromScratch
         \<lparr>input_format = ''i'', expected_output_format = ''o'', task = ''t'', scenario = ''s''\<rparr>
         2 (Inr [golden_plain, golden_rich]),
       Subheader ''Generated Examples:'',
       Expander 1, MarkdownCode (PStr ''q''), Expander 2, MarkdownCode (PStr ''q2''),
       DownloadButton ''Download as JSON''
         (JArray [JObject [(''input'', JString ''q'')], JObject [(''input'', JString ''q2'')]])
         ''synthetic_data.json'' ''application/json''])
   \<and> (\<exists>vs. length vs = length [golden_plain, golden_rich]
         \<and> (\<forall>i<length [golden_plain, golden_rich].
               ([golden_plain, golden_rich] ! i) ''input'' = Some (vs ! i))
         \<and> JArray [JObject [(''input'', JString ''q'')], JObject [(''input'', JString ''q2'')]]
             = JArray (map (\<lambda>v. JObject [(''input'', to_json v)]) vs))"
proof -
  let ?cfg = "\<lparr>input_format = ''i'', expected_output_format = ''o'', task = ''t'',
                scenario = ''s''\<rparr>"
  let ?j = "JArray [JObject [(''input'', JString ''q'')], JObject [(''input'', JString ''q2'')]]"
  let ?tr = "[Spinner ''Generating synthetic data...'',
       GenerateFromScratch ?cfg 2 (Inr [golden_plain, golden_rich]),
       Subheader ''Generated Examples:'',
       Expander 1, MarkdownCode (PStr ''q''), Expander 2, MarkdownCode (PStr ''q2''),
       DownloadButton ''Download as JSON'' ?j ''synthetic_data.json'' ''application/json'']"
  have run: "generate_from_styling (env_returning [golden_plain, golden_rich])
               ''i'' ''o'' ''t'' ''s'' 2 = (Completed, ?tr)"
    by (simp add: generate_from_styling_def styling_try_def styling_results_def
        env_returning_def getattr_def golden_plain_def golden_rich_def json_dumps_def)
  have call: "GenerateFromScratch ?cfg 2 (Inr [golden_plain, golden_rich]) \<in> set ?tr"
    by simp
  have button: "DownloadButton ''Download as JSON'' ?j ''synthetic_data.json''
                  ''application/json'' \<in> set ?tr"
    by simp
  from styling_export_only_input [OF run call button] run show ?thesis
    by simp
qed

lemma example_styling_run:
  "generate_from_styling (env_returning [golden_plain, golden_rich]) ''i'' ''o'' ''t'' ''s'' 2 =
     (Completed,
      [Spinner ''Generating synthetic data...'',
       GenerateFromScratch
         \<lparr>input_format = ''i'', expected_output_format = ''o'', task = ''t'', scenario = ''s''\<rparr>
         2 (Inr [golden_plain, golden_rich]),
       Subheader ''Generated Examples:'',
       Expander 1, MarkdownCode (PStr ''q''), Expander 2, MarkdownCode (PStr ''q2''),
       DownloadButton ''Download as JSON''
         (JArray [JObject [(''input'', JString ''q'')], JObject [(''input'', JString ''q2'')]])
         ''synthetic_data.json'' ''application/json''])"
  by (simp add: generate_from_styling_def styling_try_def styling_results_def
      env_returning_def getattr_def golden_plain_def golden_rich_def json_dumps_def)

lemma example_documents_run:
  "fst (generate_from_documents (env_returning [golden_plain, golden_rich])
          [file_one, file_two] Map.empty) = Completed"
  "fst (snd (generate_from_documents (env_returning [golden_plain, golden_rich])
          [file_one, file_two] Map.empty)) =
     [Spinner ''Generating synthetic data from documents...'',
      FileWrite ''/t/a'' [1, 2], Info ''Processing: a'',
      FileWrite ''/t/a'' [3], Info ''Processing: a'',
      GenerateFromDocs [''/t/a'', ''/t/a''] (Inr [golden_plain, golden_rich]),
      Subheader ''Generated Examples:'',
      Expander 1, Markdown ''**Input:**'', MarkdownCode (PStr ''q''),
      Markdown ''**Expected Output:**'', MarkdownCode (PStr []),
      Expander 2, Markdown ''**Input:**'', MarkdownCode (PStr ''q2''),
      Markdown ''**Expected Output:**'', MarkdownCode (PStr ''a''),
      Markdown ''**Context:**'', MarkdownCode (PList [PStr ''c'']),
      DownloadButton ''Download as JSON''
        (JArray
          [JObject [(''input'', JString ''q''), (''expected_output'', JString [])],
           JObject [(''input'', JString ''q2''), (''expected_output'', JString ''a''),
                    (''context'', JArray [JString ''c'']), (''source_file'', JString ''s'')]])
        ''synthetic_data_from_docs.json'' ''application/json'']"
  by (simp_all add: generate_from_documents_def document_try_def document_body_def
      document_results_def show_document_def document_data_def add_if_present_def
      env_returning_def getattr_def golden_plain_def golden_rich_def json_dumps_def
      file_one_def file_two_def os_path_join_def Let_def)

lemma document_data_document_keys:
  assumes "document_data g = Inr d"
  shows "\<exists>kvs. to_json d = JObject kvs \<and> map fst kvs = document_keys g"
  using assms
  by (auto simp: document_data_def add_if_present_def present_def getattr_def
           document_keys_def split: sum.splits option.splits)

lemma document_json_data_nth:
  "document_json_data gs = Inr ds \<Longrightarrow>
     length ds = length gs \<and> (\<forall>i<length gs. document_data (gs ! i) = Inr (ds ! i))"
  using document_json_data_Inr [of gs ds] by (auto simp: list_all2_conv_all_nth)

text \<open>
  C1, as stated, fails: a golden whose \<open>expected_output\<close> is the empty string is exported
  with the key \<open>expected_output\<close>.
\<close>

theorem document_export_empty_field_counterexample:
  "\<not> present golden_plain ''expected_output'' \<and>
   DownloadButton ''Download as JSON''
     (JArray [JObject [(''input'', JString ''q''), (''expected_output'', JString [])]])
     ''synthetic_data_from_docs.json'' ''application/json''
   \<in> set (fst (snd (generate_from_documents (env_returning [golden_plain]) [file_one]
                      Map.empty)))"
  by (simp add: generate_from_documents_def document_try_def document_body_def
      document_results_def show_document_def document_data_def add_if_present_def
      env_returning_def getattr_def golden_plain_def json_dumps_def present_def
      file_one_def os_path_join_def Let_def)

text \<open>
  C1, amended. In document mode, whenever the download is offered, the object exported
  for a golden has the keys \<open>input\<close> and \<open>expected_output\<close>, whatever their values, and
  after them each of \<open>context\<close>, \<open>additional_metadata\<close> and \<open>source_file\<close> exactly when
  the golden has that attribute with a truthy (non-empty) value.
\<close>

theorem document_export_keys:
  assumes "generate_from_documents e files fs = (out, tr, fs')"
      and "GenerateFromDocs ps (Inr gs) \<in> set tr"
      and "DownloadButton l j f m \<in> set tr"
  shows "\<exists>js. j = JArray js \<and> length js = length gs \<and>
           (\<forall>i<length gs. \<exists>kvs. js ! i = JObject kvs \<and>
               map fst kvs = ''input'' # ''expected_output'' #
                 filter (present (gs ! i))
                   [''context'', ''additional_metadata'', ''source_file''])"
  unfolding document_keys_def [symmetric]
proof -
  from document_download [OF assms] obtain ds where
    ds: "document_json_data gs = Inr ds" and j: "j = JArray (map to_json ds)"
    by blast
  from document_json_data_nth [OF ds] have
    len: "length ds = length gs" and nth: "\<forall>i<length gs. document_data (gs ! i) = Inr (ds ! i)"
    by simp_all
  have "\<forall>i<length gs. \<exists>kvs. map to_json ds ! i = JObject kvs \<and> map fst kvs = document_keys (gs ! i)"
  proof (intro allI impI)
    fix i assume i: "i < length gs"
    with nth have "document_data (gs ! i) = Inr (ds ! i)" by simp
    from document_data_document_keys [OF this] i len
    show "\<exists>kvs. map to_json ds ! i = JObject kvs \<and> map fst kvs = document_keys (gs ! i)"
      by simp
  qed
  with j len show "\<exists>js. j = JArray js \<and> length js = length gs \<and>
      (\<forall>i<length gs. \<exists>kvs. js ! i = JObject kvs \<and> map fst kvs = document_keys (gs ! i))"
    by simp
qed

theorem document_export_keys_witness:
  "GenerateFromDocs [''/t/a'', ''/t/a''] (Inr [golden_plain, golden_rich])
     \<in> set (fst (snd (generate_from_documents (env_returning [golden_plain, golden_rich])
                        [file_one, file_two] Map.empty)))
   \<and> DownloadButton ''Download as JSON''
        (JArray
          [JObject [(''input'', JString ''q''), (''expected_output'', JString [])],
           JObject [(''input'', JString ''q2''), (''expected_output'', JString ''a''),
                    (''context'', JArray [JString ''c'']), (''source_file'', JString ''s'')]])
        ''synthetic_data_from_docs.json'' ''application/json''
     \<in> set (fst (snd (generate_from_documents (env_returning [golden_plain, golden_rich])
                        [file_one, file_two] Map.empty)))
   \<and> (\<exists>js.
        JArray
          [JObject [(''input'', JString ''q''), (''expected_output'', JString [])],
           JObject [(''input'', JString ''q2''), (''expected_output'', JString ''a''),
                    (''context'', JArray [JString ''c'']), (''source_file'', JString ''s'')]]
          = JArray js
        \<and> length js = length [golden_plain, golden_rich]
        \<and> (\<forall>i<length [golden_plain, golden_rich]. \<exists>kvs. js ! i = JObject kvs \<and>
              map fst kvs = ''input'' # ''expected_output'' #
                filter (present ([golden_plain, golden_rich] ! i))
                  [''context'', ''additional_metadata'', ''source_file'']))"
proof -
  let ?run = "generate_from_documents (env_returning [golden_plain, golden_rich])
                [file_one, file_two] Map.empty"
  let ?j = "JArray
          [JObject [(''input'', JString ''q''), (''expected_output'', JString [])],
           JObject [(''input'', JString ''q2''), (''expected_output'', JString ''a''),
                    (''context'', JArray [JString ''c'']), (''source_file'', JString ''s'')]]"
  have run: "?run = (fst ?run, fst (snd ?run), snd (snd ?run))" by simp
  have call: "GenerateFromDocs [''/t/a'', ''/t/a''] (Inr [golden_plain, golden_rich])
                \<in> set (fst (snd ?run))"
    by (simp add: example_documents_run)
  have button: "DownloadButton ''Download as JSON'' ?j ''synthetic_data_from_docs.json''
                  ''application/json'' \<in> set (fst (snd ?run))"
    by (simp add: example_documents_run)
  show ?thesis
    by (rule conjI [OF call conjI [OF button document_export_keys [OF run call button]]])
qed

lemma styling_json_data_nth:
  "styling_json_data gs = Inr ds \<Longrightarrow>
     length ds = length gs \<and>
     (\<forall>i<length gs. \<exists>v. (gs ! i) ''input'' = Some v \<and> ds ! i = PDict [(''input'', v)])"
  using styling_json_data_Inr [of gs ds] by (auto simp: list_all2_conv_all_nth)

text \<open>
  C6. In both modes, whenever the download is offered, the exported array is the list
  of dictionaries built from the goldens the collaborator returned, serialised element
  by element: it has as many elements as there are goldens, and its i-th element is
  the one built from the i-th golden.
\<close>

theorem export_preserves_order:
  "(generate_from_styling e a b c d n = (out, tr)
      \<and> GenerateFromScratch cfg k (Inr gs) \<in> set tr
      \<and> DownloadButton l j f m \<in> set tr
    \<longrightarrow> (\<exists>ds. j = JArray (map to_json ds) \<and> length ds = length gs
           \<and> (\<forall>i<length gs. \<exists>v. (gs ! i) ''input'' = Some v
                  \<and> ds ! i = PDict [(''input'', v)])))
   \<and> (generate_from_documents e' files fs = (out', tr', fs')
      \<and> GenerateFromDocs ps (Inr gs') \<in> set tr'
      \<and> DownloadButton l' j' f' m' \<in> set tr'
    \<longrightarrow> (\<exists>ds. j' = JArray (map to_json ds) \<and> length ds = length gs'
           \<and> (\<forall>i<length gs'. document_data (gs' ! i) = Inr (ds ! i))))"
proof (intro conjI impI)
  assume h: "generate_from_styling e a b c d n = (out, tr)
      \<and> GenerateFromScratch cfg k (Inr gs) \<in> set tr
      \<and> DownloadButton l j f m \<in> set tr"
  then have "\<exists>ds. styling_json_data gs = Inr ds \<and> j = JArray (map to_json ds) \<and> out = Completed"
    using styling_download [of e a b c d n out tr cfg k gs l j f m] by simp
  then obtain ds where ds: "styling_json_data gs = Inr ds" and j: "j = JArray (map to_json ds)"
    by (elim exE conjE)
  from styling_json_data_nth [OF ds] j
  show "\<exists>ds. j = JArray (map to_json ds) \<and> length ds = length gs
           \<and> (\<forall>i<length gs. \<exists>v. (gs ! i) ''input'' = Some v \<and> ds ! i = PDict [(''input'', v)])"
    by (intro exI [of _ ds]) simp
next
  assume h: "generate_from_documents e' files fs = (out', tr', fs')
      \<and> GenerateFromDocs ps (Inr gs') \<in> set tr'
      \<and> DownloadButton l' j' f' m' \<in> set tr'"
  then have "\<exists>ds. document_json_data gs' = Inr ds \<and> j' = JArray (map to_json ds)
      \<and> out' = Completed \<and> gs' \<noteq> []"
    using document_download [of e' files fs out' tr' fs' ps gs' l' j' f' m'] by simp
  then obtain ds where ds: "document_json_data gs' = Inr ds" and j: "j' = JArray (map to_json ds)"
    by (elim exE conjE)
  from document_json_data_nth [OF ds] j
  show "\<exists>ds. j' = JArray (map to_json ds) \<and> length ds = length gs'
           \<and> (\<forall>i<length gs'. document_data (gs' ! i) = Inr (ds ! i))"
    by (intro exI [of _ ds]) simp
qed

theorem export_preserves_order_witness:
  "generate_from_styling (env_returning [golden_plain, golden_rich]) ''i'' ''o'' ''t'' ''s'' 2 =
     (Completed,
      [Spinner ''Generating synthetic data...'',
       GenerateFromScratch
         \<lparr>input_format = ''i'', expected_output_format = ''o'', task = ''t'', scenario = ''s''\<rparr>
         2 (Inr [golden_plain, golden_rich]),
       Subheader ''Generated Examples:'',
       Expander 1, MarkdownCode (PStr ''q''), Expander 2, MarkdownCode (PStr ''q2''),
       DownloadButton ''Download as JSON''
         (JArray [JObject [(''input'', JString ''q'')], JObject [(''input'', JString ''q2'')]])
         ''synthetic_data.json'' ''application/json''])
   \<and> GenerateFromDocs [''/t/a'', ''/t/a''] (Inr [golden_plain, golden_rich])
       \<in> set (fst (snd (generate_from_documents (env_returning [golden_plain, golden_rich])
                          [file_one, file_two] Map.empty)))
   \<and> DownloadButton ''Download as JSON''
        (JArray
          [JObject [(''input'', JString ''q''), (''expected_output'', JString [])],
           JObject [(''input'', JString ''q2''), (''expected_output'', JString ''a''),
                    (''context'', JArray [JString ''c'']), (''source_file'', JString ''s'')]])
        ''synthetic_data_from_docs.json'' ''application/json''
       \<in> set (fst (snd (generate_from_documents (env_returning [golden_plain, golden_rich])
                          [file_one, file_two] Map.empty)))
   \<and> (\<exists>ds. JArray [JObject [(''input'', JString ''q'')], JObject [(''input'', JString ''q2'')]]
              = JArray (map to_json ds)
          \<and> length ds = length [golden_plain, golden_rich]
          \<and> (\<forall>i<length [golden_plain, golden_rich].
                \<exists>v. ([golden_plain, golden_rich] ! i) ''input'' = Some v
                  \<and> ds ! i = PDict [(''input'', v)]))
   \<and> (\<exists>ds. JArray
          [JObject [(''input'', JString ''q''), (''expected_output'', JString [])],
           JObject [(''input'', JString ''q2''), (''expected_output'', JString ''a''),
                    (''context'', JArray [JString ''c'']), (''source_file'', JString ''s'')]]
              = JArray (map to_json ds)
          \<and> length ds = length [golden_plain, golden_rich]
          \<and> (\<forall>i<length [golden_plain, golden_rich].
                document_data ([golden_plain, golden_rich] ! i) = Inr (ds ! i)))"
proof -
  let ?E = "env_returning [golden_plain, golden_rich]"
  let ?cfg = "\<lparr>input_format = ''i'', expected_output_format = ''o'', task = ''t'',
                scenario = ''s''\<rparr>"
  let ?jS = "JArray [JObject [(''input'', JString ''q'')], JObject [(''input'', JString ''q2'')]]"
  let ?trS = "[Spinner ''Generating synthetic data...'',
       GenerateFromScratch ?cfg 2 (Inr [golden_plain, golden_rich]),
       Subheader ''Generated Examples:'',
       Expander 1, MarkdownCode (PStr ''q''), Expander 2, MarkdownCode (PStr ''q2''),
       DownloadButton ''Download as JSON'' ?jS ''synthetic_data.json'' ''application/json'']"
  let ?run = "generate_from_documents ?E [file_one, file_two] Map.empty"
  let ?jD = "JArray
          [JObject [(''input'', JString ''q''), (''expected_output'', JString [])],
           JObject [(''input'', JString ''q2''), (''expected_output'', JString ''a''),
                    (''context'', JArray [JString ''c'']), (''source_file'', JString ''s'')]]"
  have runS: "generate_from_styling ?E ''i'' ''o'' ''t'' ''s'' 2 = (Completed, ?trS)"
    by (rule example_styling_run)
  have callS: "GenerateFromScratch ?cfg 2 (Inr [golden_plain, golden_rich]) \<in> set ?trS"
    by simp
  have buttonS: "DownloadButton ''Download as JSON'' ?jS ''synthetic_data.json''
                   ''application/json'' \<in> set ?trS"
    by simp
  have runD: "?run = (fst ?run, fst (snd ?run), snd (snd ?run))" by simp
  have callD: "GenerateFromDocs [''/t/a'', ''/t/a''] (Inr [golden_plain, golden_rich])
                 \<in> set (fst (snd ?run))"
    by (simp add: example_documents_run)
  have buttonD: "DownloadButton ''Download as JSON'' ?jD ''synthetic_data_from_docs.json''
                   ''application/json'' \<in> set (fst (snd ?run))"
    by (simp add: example_documents_run)
  note both = export_preserves_order
    [where e = ?E and a = "''i''" and b = "''o''" and c = "''t''" and d = "''s''" and n = 2
       and out = Completed and tr = ?trS and cfg = ?cfg and k = 2
       and gs = "[golden_plain, golden_rich]" and l = "''Download as JSON''" and j = ?jS
       and f = "''synthetic_data.json''" and m = "''application/json''"
       and e' = ?E and files = "[file_one, file_two]" and fs = Map.empty
       and out' = "fst ?run" and tr' = "fst (snd ?run)" and fs' = "snd (snd ?run)"
       and ps = "[''/t/a'', ''/t/a'']" and gs' = "[golden_plain, golden_rich]"
       and l' = "''Download as JSON''" and j' = ?jD
       and f' = "''synthetic_data_from_docs.json''" and m' = "''application/json''"]
  note c1 = both [THEN conjunct1, THEN mp, OF conjI [OF runS conjI [OF callS buttonS]]]
  note c2 = both [THEN conjunct2, THEN mp, OF conjI [OF runD conjI [OF callD buttonD]]]
  show ?thesis
    by (rule conjI [OF runS conjI [OF callD conjI [OF buttonD conjI [OF c1 c2]]]])
qed

section \<open>The empty result\<close>

lemma generate_from_documents_call:
  assumes run: "generate_from_documents e files fs = (out, tr, fs')"
      and call: "GenerateFromDocs ps res \<in> set tr"
  shows "\<exists>td evs fs1 r evs'.
           mkdtemp e = Inr td
           \<and> save_uploaded_files e td files fs = (None, ps, evs, fs1)
           \<and> res = generate_goldens_from_docs e fs1 ps
           \<and> (case res of Inl ex \<Rightarrow> r = Some ex \<and> evs' = []
                | Inr gs \<Rightarrow> document_results gs = (r, evs'))
           \<and> fs' = rmtree td fs1
           \<and> (out, tr) =
               (case r of
                  None \<Rightarrow>
                    (Completed, Spinner ''Generating synthetic data from documents...'' #
                       evs @ GenerateFromDocs ps res # evs')
                | Some ex \<Rightarrow>
                    if is_Exception ex
                    then (Completed, Spinner ''Generating synthetic data from documents...'' #
                            evs @ GenerateFromDocs ps res # evs' @
                            [Error (''Error generating synthetic data: '' @ str ex),
                             Error ''Make sure you have the required API key set if needed.''])
                    else (Propagated ex, Spinner ''Generating synthetic data from documents...'' #
                            evs @ GenerateFromDocs ps res # evs'))"
proof (cases "mkdtemp e")
  case (Inl ex)
  with run call generate_from_documents_Inl [OF Inl, of files fs] show ?thesis
    by (auto split: if_splits)
next
  case (Inr td)
  obtain r tr0 fs1 where b: "document_body e td files fs = (r, tr0, fs1)"
    by (cases "document_body e td files fs") auto
  note u = generate_from_documents_Inr [OF Inr b]
  from run u have c0: "GenerateFromDocs ps res \<in> set tr0"
    using call by (auto split: option.splits if_splits)
  from document_body_call [OF b c0] obtain evs evs' where
    sv: "save_uploaded_files e td files fs = (None, ps, evs, fs1)"
    and res: "res = generate_goldens_from_docs e fs1 ps"
    and tr0: "tr0 = evs @ GenerateFromDocs ps res # evs'"
    and dr: "case res of Inl ex \<Rightarrow> r = Some ex \<and> evs' = []
               | Inr gs \<Rightarrow> document_results gs = (r, evs')"
    by (elim exE conjE)
  from run u tr0 have fs': "fs' = rmtree td fs1"
    by (auto split: option.splits if_splits)
  from run u tr0 have shape: "(out, tr) =
               (case r of
                  None \<Rightarrow>
                    (Completed, Spinner ''Generating synthetic data from documents...'' #
                       evs @ GenerateFromDocs ps res # evs')
                | Some ex \<Rightarrow>
                    if is_Exception ex
                    then (Completed, Spinner ''Generating synthetic data from documents...'' #
                            evs @ GenerateFromDocs ps res # evs' @
                            [Error (''Error generating synthetic data: '' @ str ex),
                             Error ''Make sure you have the required API key set if needed.''])
                    else (Propagated ex, Spinner ''Generating synthetic data from documents...'' #
                            evs @ GenerateFromDocs ps res # evs'))"
    by (auto split: option.splits if_splits)
  from Inr sv res dr fs' shape show ?thesis
    by (intro exI [of _ td] exI [of _ evs] exI [of _ fs1] exI [of _ r] exI [of _ evs'] conjI)
qed

text \<open>
  C3. In document mode, when the collaborator returns the empty list, the action
  completes, shows the warning, offers no download and shows no error.
\<close>

theorem empty_result_is_warning:
  assumes "generate_from_documents e files fs = (out, tr, fs')"
      and "GenerateFromDocs ps (Inr []) \<in> set tr"
  shows "out = Completed
     \<and> Warning ''No synthetic data was generated. This might happen if the documents couldn't be processed properly.'' \<in> set tr
     \<and> (\<forall>l j f m. DownloadButton l j f m \<notin> set tr)
     \<and> (\<forall>msg. Error msg \<notin> set tr)"
proof -
  from generate_from_documents_call [OF assms] obtain td evs fs1 r evs' where
    sv: "save_uploaded_files e td files fs = (None, ps, evs, fs1)"
    and dr: "case (Inr [] :: exn + golden list) of Inl ex \<Rightarrow> r = Some ex \<and> evs' = []
               | Inr gs \<Rightarrow> document_results gs = (r, evs')"
    and shape: "(out, tr) =
               (case r of
                  None \<Rightarrow>
                    (Completed, Spinner ''Generating synthetic data from documents...'' #
                       evs @ GenerateFromDocs ps (Inr []) # evs')
                | Some ex \<Rightarrow>
                    if is_Exception ex
                    then (Completed, Spinner ''Generating synthetic data from documents...'' #
                            evs @ GenerateFromDocs ps (Inr []) # evs' @
                            [Error (''Error generating synthetic data: '' @ str ex),
                             Error ''Make sure you have the required API key set if needed.''])
                    else (Propagated ex, Spinner ''Generating synthetic data from documents...'' #
                            evs @ GenerateFromDocs ps (Inr []) # evs'))"
    by (elim exE conjE)
  from dr have r: "r = None" and evs': "evs' = [Subheader ''Generated Examples:'',
      Warning ''No synthetic data was generated. This might happen if the documents couldn't be processed properly.'']"
    by (simp_all add: document_results_def)
  have save: "\<And>ev. ev \<in> set evs \<Longrightarrow> is_save ev"
    using save_uploaded_files_events [of _ e td files fs] sv by simp
  from shape r evs' have out: "out = Completed"
    and tr: "tr = Spinner ''Generating synthetic data from documents...'' #
       evs @ [GenerateFromDocs ps (Inr []), Subheader ''Generated Examples:'',
      Warning ''No synthetic data was generated. This might happen if the documents couldn't be processed properly.'']"
    by simp_all
  have nb: "\<forall>l j f m. DownloadButton l j f m \<notin> set tr"
  proof (intro allI notI)
    fix l j f m assume "DownloadButton l j f m \<in> set tr"
    with tr have "DownloadButton l j f m \<in> set evs" by simp
    from save [OF this] show False by simp
  qed
  have ne: "\<forall>msg. Error msg \<notin> set tr"
  proof (intro allI notI)
    fix msg assume "Error msg \<in> set tr"
    with tr have "Error msg \<in> set evs" by simp
    from save [OF this] show False by simp
  qed
  from tr have "Warning ''No synthetic data was generated. This might happen if the documents couldn't be processed properly.'' \<in> set tr"
    by simp
  with out nb ne show ?thesis by (intro conjI)
qed

lemma example_empty_run:
  "generate_from_documents (env_returning []) [file_one] Map.empty =
     (Completed,
      [Spinner ''Generating synthetic data from documents...'',
       FileWrite ''/t/a'' [1, 2], Info ''Processing: a'',
       GenerateFromDocs [''/t/a''] (Inr []),
       Subheader ''Generated Examples:'',
       Warning ''No synthetic data was generated. This might happen if the documents couldn't be processed properly.''],
      rmtree ''/t'' [[''t'', ''a''] \<mapsto> [1, 2]])"
  by (simp add: generate_from_documents_def document_try_def document_body_def
      document_results_def env_returning_def file_one_def os_path_join_def
      location_def Let_def)

theorem empty_result_is_warning_witness:
  "GenerateFromDocs [''/t/a''] (Inr [])
     \<in> set (fst (snd (generate_from_documents (env_returning []) [file_one] Map.empty)))
   \<and> fst (generate_from_documents (env_returning []) [file_one] Map.empty) = Completed
   \<and> Warning ''No synthetic data was generated. This might happen if the documents couldn't be processed properly.''
     \<in> set (fst (snd (generate_from_documents (env_returning []) [file_one] Map.empty)))
   \<and> (\<forall>l j f m. DownloadButton l j f m
         \<notin> set (fst (snd (generate_from_documents (env_returning []) [file_one] Map.empty))))
   \<and> (\<forall>msg. Error msg
         \<notin> set (fst (snd (generate_from_documents (env_returning []) [file_one] Map.empty))))"
proof -
  let ?run = "generate_from_documents (env_returning []) [file_one] Map.empty"
  have run: "?run = (fst ?run, fst (snd ?run), snd (snd ?run))" by simp
  have call: "GenerateFromDocs [''/t/a''] (Inr []) \<in> set (fst (snd ?run))"
    by (simp add: example_empty_run)
  show ?thesis
    by (rule conjI [OF call empty_result_is_warning [OF run call]])
qed

section \<open>Exceptions\<close>





























section \<open>The number of examples and the trigger\<close>

lemma generate_from_styling_call:
  assumes run: "generate_from_styling e a b c d n = (out, tr)"
      and call: "GenerateFromScratch cfg k res \<in> set tr"
  shows "k = n \<and> res = generate_goldens_from_scratch e cfg n
           \<and> cfg = \<lparr>input_format = a, expected_output_format = b, task = c, scenario = d\<rparr>"
proof -
  obtain r tr0 where t: "styling_try e a b c d n = (r, tr0)"
    by (cases "styling_try e a b c d n")
  from run generate_from_styling_unfold [OF t] call
  have "GenerateFromScratch cfg k res \<in> set tr0"
    by (auto split: option.splits if_splits)
  from styling_try_call [OF t this] show ?thesis by simp
qed

text \<open>
  C7. The count passed to the collaborator in styling mode is the value of the slider,
  which lies between 1 and 50.
\<close>

theorem num_goldens_in_range:
  assumes "styling_page e a b c d handle button = (out, tr)"
      and "GenerateFromScratch cfg n res \<in> set tr"
  shows "1 \<le> n \<and> n \<le> 50 \<and> n = st_slider 1 50 5 handle"
proof -
  from assms have run: "generate_from_styling e a b c d (st_slider 1 50 5 handle) = (out, tr)"
    by (cases button) (simp_all add: styling_page_def)
  from generate_from_styling_call [OF run assms(2)]
  have n: "n = st_slider 1 50 5 handle" by simp
  have "1 \<le> st_slider 1 50 5 handle \<and> st_slider 1 50 5 handle \<le> 50"
    by (cases handle) (simp_all add: st_slider_def)
  with n show ?thesis by simp
qed

theorem num_goldens_in_range_witness:
  "styling_page (env_returning []) ''i'' ''o'' ''t'' ''s'' (Some 20) True =
     (Completed,
      [Spinner ''Generating synthetic data...'',
       GenerateFromScratch
         \<lparr>input_format = ''i'', expected_output_format = ''o'', task = ''t'', scenario = ''s''\<rparr>
         20 (Inr []),
       Subheader ''Generated Examples:'',
       DownloadButton ''Download as JSON'' (JArray []) ''synthetic_data.json''
         ''application/json''])
   \<and> (1::int) \<le> 20 \<and> (20::int) \<le> 50 \<and> 20 = st_slider 1 50 5 (Some 20)"
proof -
  let ?cfg = "\<lparr>input_format = ''i'', expected_output_format = ''o'', task = ''t'',
                scenario = ''s''\<rparr>"
  let ?tr = "[Spinner ''Generating synthetic data...'',
       GenerateFromScratch ?cfg 20 (Inr []),
       Subheader ''Generated Examples:'',
       DownloadButton ''Download as JSON'' (JArray []) ''synthetic_data.json''
         ''application/json'']"
  have run: "styling_page (env_returning []) ''i'' ''o'' ''t'' ''s'' (Some 20) True =
               (Completed, ?tr)"
    by (simp add: styling_page_def st_slider_def generate_from_styling_def styling_try_def
        styling_results_def env_returning_def json_dumps_def)
  have call: "GenerateFromScratch ?cfg 20 (Inr []) \<in> set ?tr" by simp
  show ?thesis
    by (rule conjI [OF run num_goldens_in_range [OF run call]])
qed

text \<open>The slider before it is moved, and with a state outside its range.\<close>

lemma st_slider_default:
  "st_slider 1 50 5 None = 5" "st_slider 1 50 5 (Some 70) = 5" "st_slider 1 50 5 (Some 0) = 5"
  by (simp_all add: st_slider_def)

text \<open>
  C9. In document mode the collaborator is called only when the button was pressed
  with at least one uploaded file, and it gets one path for each of them.
\<close>

theorem documents_needed_for_generation:
  assumes "document_page e uploaded_files button fs = (out, tr, fs')"
      and "GenerateFromDocs ps res \<in> set tr"
  shows "uploaded_files \<noteq> [] \<and> button \<and> length ps = length uploaded_files \<and> ps \<noteq> []"
proof -
  from assms have c: "uploaded_files \<noteq> [] \<and> button"
    by (cases "uploaded_files \<noteq> [] \<and> button") (simp_all add: document_page_def)
  with assms(1) have run: "generate_from_documents e uploaded_files fs = (out, tr, fs')"
    by (simp add: document_page_def)
  from generate_from_documents_call [OF run assms(2)] obtain td evs fs1 where
    "save_uploaded_files e td uploaded_files fs = (None, ps, evs, fs1)"
    by (elim exE conjE)
  from save_uploaded_files_ok [OF this] have "length ps = length uploaded_files" by simp
  with c show ?thesis by auto
qed

theorem documents_needed_for_generation_witness:
  "GenerateFromDocs [''/t/a''] (Inr [])
     \<in> set (fst (snd (document_page (env_returning []) [file_one] True Map.empty)))
   \<and> ([file_one] \<noteq> [] \<and> True \<and> length [''/t/a''] = length [file_one] \<and> [''/t/a''] \<noteq> [])"
proof -
  let ?run = "document_page (env_returning []) [file_one] True Map.empty"
  have run: "?run = (fst ?run, fst (snd ?run), snd (snd ?run))" by simp
  have call: "GenerateFromDocs [''/t/a''] (Inr []) \<in> set (fst (snd ?run))"
    by (simp add: document_page_def example_empty_run)
  show ?thesis
    by (rule conjI [OF call documents_needed_for_generation [OF run call]])
qed

section \<open>The copies of the uploads\<close>

lemma split_path_not_Nil: "split_path p \<noteq> []"
  by (induction p) (auto split: list.splits)

lemma split_path_plain: "CHR ''/'' \<notin> set n \<Longrightarrow> split_path n = [n]"
  by (induction n) auto

lemma split_path_append:
  "split_path (a @ CHR ''/'' # b) = split_path a @ split_path b"
  using split_path_not_Nil by (induction a) (auto split: list.splits)

lemma resolve_append: "resolve st (cs @ ds) = resolve (rev (resolve st cs)) ds"
  by (induction cs arbitrary: st) auto

lemma resolve_plain:
  assumes "n \<noteq> []" "n \<noteq> ''.''" "n \<noteq> ''..''"
  shows "resolve st (cs @ [n]) = resolve st cs @ [n]"
  using assms by (simp add: resolve_append)

lemma resolve_empty: "resolve st (cs @ [[]]) = resolve st cs"
  by (simp add: resolve_append)

text \<open>The copy of an upload whose name is one path component is a child of the directory.\<close>

lemma location_join_plain:
  assumes "plain_name n"
  shows "location (os_path_join d n) = location d @ [n]"
proof -
  from assms have n: "n \<noteq> []" "n \<noteq> ''.''" "n \<noteq> ''..''" and slash: "CHR ''/'' \<notin> set n"
    by (simp_all add: plain_name_def)
  from n(1) slash have hd: "hd n \<noteq> CHR ''/''" by (cases n) auto
  show ?thesis
  proof (cases "d = []")
    case True
    with n hd slash show ?thesis
      by (simp add: os_path_join_def location_def split_path_plain)
  next
    case False
    show ?thesis
    proof (cases "last d = CHR ''/''")
      case True
      with False obtain d' where d: "d = d' @ [CHR ''/'']"
        by (metis append_butlast_last_id)
      from d hd n(1) have "os_path_join d n = d' @ CHR ''/'' # n"
        by (simp add: os_path_join_def)
      then have "location (os_path_join d n) = resolve [] (split_path d' @ [n])"
        by (simp add: location_def split_path_append split_path_plain [OF slash])
      also have "\<dots> = resolve [] (split_path d') @ [n]"
        by (rule resolve_plain [OF n])
      also from d have "resolve [] (split_path d') = location d"
        using split_path_append [of d' "[]"] by (simp add: location_def resolve_empty)
      finally show ?thesis .
    next
      case nl: False
      with False hd n(1) have "os_path_join d n = d @ CHR ''/'' # n"
        by (simp add: os_path_join_def)
      then have "location (os_path_join d n) = resolve [] (split_path d @ [n])"
        by (simp add: location_def split_path_append split_path_plain [OF slash])
      also have "\<dots> = resolve [] (split_path d) @ [n]"
        by (rule resolve_plain [OF n])
      finally show ?thesis by (simp add: location_def)
    qed
  qed
qed

lemma plain_name_in_dir:
  assumes "plain_name n"
  shows "in_dir d (os_path_join d n)"
  by (simp add: in_dir_def location_join_plain [OF assms] strict_prefix_def)

lemma rmtree_in_dir: "in_dir d p \<Longrightarrow> rmtree d fs (location p) = None"
  by (simp add: rmtree_def in_dir_def)




text \<open>
  C5 fails for an upload whose name leads out of the temporary directory, an absolute
  path or one that goes up with \<open>..\<close>: the copy is made outside the directory, and it
  is still there when the action is over, whether the action completed or showed the
  error messages.
\<close>

theorem copy_outlives_action:
  "FileWrite ''/tmp/keep'' [7]
     \<in> set (fst (snd (generate_from_documents env_tmp [file_absolute] Map.empty)))
   \<and> fst (generate_from_documents env_tmp [file_absolute] Map.empty) = Completed
   \<and> snd (snd (generate_from_documents env_tmp [file_absolute] Map.empty))
         (location ''/tmp/keep'') = Some [7]
   \<and> FileWrite ''/tmp/keep'' [7]
     \<in> set (fst (snd (generate_from_documents (env_raising (PyException ''boom''))
                        [file_absolute] Map.empty)))
   \<and> Error ''Error generating synthetic data: boom''
     \<in> set (fst (snd (generate_from_documents (env_raising (PyException ''boom''))
                        [file_absolute] Map.empty)))
   \<and> snd (snd (generate_from_documents (env_raising (PyException ''boom''))
                  [file_absolute] Map.empty)) (location ''/tmp/keep'') = Some [7]
   \<and> FileWrite ''/tmp/tmpk3/../keep2'' [8]
     \<in> set (fst (snd (generate_from_documents env_tmp [file_parent] Map.empty)))
   \<and> location ''/tmp/tmpk3/../keep2'' = [''tmp'', ''keep2'']
   \<and> snd (snd (generate_from_documents env_tmp [file_parent] Map.empty))
         [''tmp'', ''keep2''] = Some [8]"
  by (simp add: generate_from_documents_def document_try_def document_body_def
      document_results_def env_tmp_def env_raising_def file_absolute_def file_parent_def
      os_path_join_def location_def rmtree_def Let_def)

text \<open>
  What does hold of the directory: when a document-mode action is over, however it
  ended, nothing is left below the temporary directory, none of the files the action
  wrote there and nothing at all, and the copy of an upload whose name is one path
  component was in that directory. When the directory could not be made, nothing was
  written.
\<close>

lemma temporary_directory_emptied:
  assumes "generate_from_documents e files fs = (out, tr, fs')"
  shows "case mkdtemp e of
           Inl ex \<Rightarrow> fs' = fs \<and> (\<forall>p b. FileWrite p b \<notin> set tr)
         | Inr td \<Rightarrow>
             (\<forall>l. strict_prefix (location td) l \<longrightarrow> fs' l = None)
             \<and> (\<forall>p b. FileWrite p b \<in> set tr \<and> in_dir td p \<longrightarrow> fs' (location p) = None)
             \<and> (\<forall>f\<in>set files. plain_name (name f) \<longrightarrow>
                   in_dir td (os_path_join td (name f))
                   \<and> fs' (location (os_path_join td (name f))) = None)"
proof (cases "mkdtemp e")
  case (Inl ex)
  from assms generate_from_documents_Inl [OF Inl, of files fs]
  have "fs' = fs \<and> (\<forall>p b. FileWrite p b \<notin> set tr)"
    by (auto split: if_splits)
  with Inl show ?thesis by simp
next
  case (Inr td)
  obtain r tr0 fs1 where b: "document_body e td files fs = (r, tr0, fs1)"
    by (cases "document_body e td files fs") auto
  from assms generate_from_documents_Inr [OF Inr b] have fs': "fs' = rmtree td fs1"
    by (auto split: option.splits if_splits)
  then have gone: "\<forall>l. strict_prefix (location td) l \<longrightarrow> fs' l = None"
    by (simp add: rmtree_def)
  from fs' have written:
    "\<forall>p b. FileWrite p b \<in> set tr \<and> in_dir td p \<longrightarrow> fs' (location p) = None"
    by (simp add: rmtree_in_dir)
  have plain: "\<forall>f\<in>set files. plain_name (name f) \<longrightarrow>
      in_dir td (os_path_join td (name f)) \<and> fs' (location (os_path_join td (name f))) = None"
    using fs' plain_name_in_dir by (simp add: rmtree_in_dir)
  from Inr gone written plain show ?thesis by simp
qed

text \<open>
  C8 fails for an upload whose name is an absolute path: \<open>os.path.join\<close> then gives the
  name itself, the bytes are written there, outside the temporary directory, that path
  is handed to the collaborator, and the file is still there when the action is over.
\<close>

theorem absolute_name_leaves_temp_dir:
  "os_path_join ''/tmp/tmpk3'' (name file_absolute) = ''/tmp/keep''
   \<and> \<not> in_dir ''/tmp/tmpk3'' ''/tmp/keep''
   \<and> fst (snd (generate_from_documents env_tmp [file_absolute] Map.empty)) =
       [Spinner ''Generating synthetic data from documents...'',
        FileWrite ''/tmp/keep'' [7], Info ''Processing: /tmp/keep'',
        GenerateFromDocs [''/tmp/keep''] (Inr []),
        Subheader ''Generated Examples:'',
        Warning ''No synthetic data was generated. This might happen if the documents couldn't be processed properly.'']
   \<and> snd (snd (generate_from_documents env_tmp [file_absolute] Map.empty))
         (location ''/tmp/keep'') = Some [7]"
  by (simp add: generate_from_documents_def document_try_def document_body_def
      document_results_def env_tmp_def file_absolute_def os_path_join_def in_dir_def
      location_def rmtree_def Let_def)

text \<open>
  What does hold of the copies: whenever the collaborator is called, the trace up to
  the call is the write of each upload, in order, with its bytes as they are, to
  \<open>os.path.join\<close> of the temporary directory and its name; the call gets these paths;
  nothing is written after it; and the path of a name that is one path component is in
  the temporary directory.
\<close>

lemma uploads_written_before_call:
  assumes "generate_from_documents e files fs = (out, tr, fs')"
      and "GenerateFromDocs ps res \<in> set tr"
  shows "\<exists>td rest. mkdtemp e = Inr td
     \<and> ps = map (\<lambda>f. os_path_join td (name f)) files
     \<and> tr = Spinner ''Generating synthetic data from documents...'' #
          concat (map (\<lambda>f. [FileWrite (os_path_join td (name f)) (getvalue f),
                             Info (''Processing: '' @ name f)]) files) @
          GenerateFromDocs ps res # rest
     \<and> (\<forall>p b. FileWrite p b \<notin> set rest)
     \<and> (\<forall>f\<in>set files. plain_name (name f) \<longrightarrow> in_dir td (os_path_join td (name f)))"
proof -
  from generate_from_documents_call [OF assms] obtain td evs fs1 r evs' where
    mk: "mkdtemp e = Inr td"
    and sv: "save_uploaded_files e td files fs = (None, ps, evs, fs1)"
    and dr: "case res of Inl ex \<Rightarrow> r = Some ex \<and> evs' = []
               | Inr gs \<Rightarrow> document_results gs = (r, evs')"
    and shape: "(out, tr) =
               (case r of
                  None \<Rightarrow>
                    (Completed, Spinner ''Generating synthetic data from documents...'' #
                       evs @ GenerateFromDocs ps res # evs')
                | Some ex \<Rightarrow>
                    if is_Exception ex
                    then (Completed, Spinner ''Generating synthetic data from documents...'' #
                            evs @ GenerateFromDocs ps res # evs' @
                            [Error (''Error generating synthetic data: '' @ str ex),
                             Error ''Make sure you have the required API key set if needed.''])
                    else (Propagated ex, Spinner ''Generating synthetic data from documents...'' #
                            evs @ GenerateFromDocs ps res # evs'))"
    by (elim exE conjE)
  note ok = save_uploaded_files_ok [OF sv]
  have no_write: "\<forall>p b. FileWrite p b \<notin> set evs'"
  proof (cases res)
    case (Inl ex)
    with dr show ?thesis by simp
  next
    case (Inr gs)
    with dr have evs': "evs' = snd (document_results gs)" by simp
    show ?thesis
    proof (intro allI notI)
      fix p b assume "FileWrite p b \<in> set evs'"
      with evs' document_results_events [of "FileWrite p b" gs] show False by simp
    qed
  qed
  from shape obtain rest where
    tr: "tr = Spinner ''Generating synthetic data from documents...'' #
          evs @ GenerateFromDocs ps res # rest"
    and rest: "rest = evs' \<or> (\<exists>ex. rest = evs' @
                            [Error (''Error generating synthetic data: '' @ str ex),
                             Error ''Make sure you have the required API key set if needed.''])"
    by (cases r) (auto split: if_splits)
  from rest no_write have nw: "\<forall>p b. FileWrite p b \<notin> set rest" by auto
  have plain: "\<forall>f\<in>set files. plain_name (name f) \<longrightarrow> in_dir td (os_path_join td (name f))"
    using plain_name_in_dir by simp
  from mk ok tr nw plain show ?thesis
    by (intro exI [of _ td] exI [of _ rest] conjI) simp_all
qed

end
